theory Spec2Isabelle
  imports Complex_Main
begin

section \<open>Strings, bytes and the standard-library operations the daemon uses\<close>

text \<open>
  A Python \<open>str\<close> is a sequence of Unicode code points and a \<open>bytes\<close> object a sequence of
  values below 256. Both are lists of naturals here; \<open>str\<close> turns an ASCII literal of the
  source into its code points.
\<close>

type_synonym pystr = "nat list"
type_synonym bytes = "nat list"

definition str :: "string \<Rightarrow> pystr" where
  "str s = map of_char s"

definition NL :: nat where
  "NL = 10"

text \<open>\<open>sep.join(xs)\<close>\<close>

fun join :: "pystr \<Rightarrow> pystr list \<Rightarrow> pystr" where
  "join sep [] = []"
| "join sep [x] = x"
| "join sep (x # y # ys) = x @ sep @ join sep (y # ys)"

text \<open>\<open>xs[a:b]\<close> for indices \<open>0 \<le> a\<close>, \<open>0 \<le> b\<close>; Python clamps both to the length.\<close>

definition slice :: "'a list \<Rightarrow> nat \<Rightarrow> nat \<Rightarrow> 'a list" where
  "slice xs a b = take (b - a) (drop a xs)"

text \<open>\<open>xs[-n:]\<close> for \<open>n > 0\<close>: the last \<open>n\<close> elements, all of \<open>xs\<close> when it is shorter.\<close>

definition last_n :: "nat \<Rightarrow> 'a list \<Rightarrow> 'a list" where
  "last_n n xs = drop (length xs - n) xs"

text \<open>\<open>str(n)\<close> for an integer: decimal digits, with a minus sign for a negative number.\<close>

fun digits :: "nat \<Rightarrow> pystr" where
  "digits n = (if n < 10 then [48 + n] else digits (n div 10) @ [48 + n mod 10])"

definition str_int :: "int \<Rightarrow> pystr" where
  "str_int i = (if i < 0 then 45 # digits (nat (- i)) else digits (nat i))"

text \<open>
  \<open>s.encode('utf-8')\<close>. A surrogate code point cannot be encoded (UnicodeEncodeError,
  the value \<open>None\<close>); Python has no code point above \<open>0x10FFFF\<close>.
\<close>

definition encode_cp :: "nat \<Rightarrow> bytes option" where
  "encode_cp c =
     (if c < 0x80 then Some [c]
      else if c < 0x800 then Some [0xC0 + c div 64, 0x80 + c mod 64]
      else if 0xD800 \<le> c \<and> c \<le> 0xDFFF then None
      else if c < 0x10000 then
        Some [0xE0 + c div 4096, 0x80 + (c div 64) mod 64, 0x80 + c mod 64]
      else if c < 0x110000 then
        Some [0xF0 + c div 262144, 0x80 + (c div 4096) mod 64,
              0x80 + (c div 64) mod 64, 0x80 + c mod 64]
      else None)"

fun encode_utf8 :: "pystr \<Rightarrow> bytes option" where
  "encode_utf8 [] = Some []"
| "encode_utf8 (c # cs) =
     (case encode_cp c of
        None \<Rightarrow> None
      | Some b \<Rightarrow> (case encode_utf8 cs of None \<Rightarrow> None | Some bs \<Rightarrow> Some (b @ bs)))"


section \<open>Event\<close>

text \<open>
  The dataclass \<open>Event\<close>. Its field \<open>timestamp\<close> holds the floating-point wall-clock
  reading \<open>time.time()\<close> taken when the event is built; no code of the daemon reads it
  back, and it is left out of the record.
\<close>

record event =
  event_type :: pystr
  message :: pystr
  priority :: pystr
  tags :: "pystr list"
  econtext :: pystr
  command :: pystr


section \<open>Notifier\<close>

text \<open>
  \<open>last_notify\<close> is the dictionary from the key \<open>f'{event_type}:{command}'\<close> to the time of
  the last call that passed the rate limit. Times are the readings of \<open>time.time()\<close>,
  taken as real numbers and handed to \<open>send\<close> by the caller of the model.
\<close>

record notifier =
  topic_url :: pystr
  last_notify :: "pystr \<rightharpoonup> real"
  rate_limit :: real

definition Notifier :: "pystr \<Rightarrow> notifier" where
  "Notifier url = \<lparr>topic_url = url, last_notify = Map.empty, rate_limit = 10\<rparr>"

text \<open>The request handed to \<open>urllib.request.urlopen\<close>; the method is always POST.\<close>

record request =
  req_url :: pystr
  req_data :: bytes
  req_title :: pystr
  req_priority :: pystr
  req_tags :: pystr

text \<open>What \<open>urlopen\<close> does: a response with a status, or any exception.\<close>

datatype http_result = Response nat | HttpException

definition notify_key :: "event \<Rightarrow> pystr" where
  "notify_key e = event_type e @ str '':'' @ command e"

definition priority_map :: "pystr \<Rightarrow> pystr" where
  "priority_map p =
     (if p = str ''low'' then str ''2''
      else if p = str ''default'' then str ''3''
      else if p = str ''high'' then str ''4''
      else if p = str ''urgent'' then str ''5''
      else str ''3'')"

text \<open>The part of the body that \<open>send\<close> appends for a non-empty context, before encoding.\<close>

definition context_part :: "event \<Rightarrow> pystr" where
  "context_part e = last_n 500 (econtext e)"

definition body :: "event \<Rightarrow> pystr" where
  "body e =
     (let b = message e @ str ''\<newline>Command: '' @ command e
      in if econtext e \<noteq> [] then b @ [NL, NL] @ context_part e else b)"

text \<open>
  \<open>Notifier.send\<close>: the result, the notifier afterwards and the requests issued (none
  or one). An exception inside the \<open>try\<close> block, the failing \<open>body.encode\<close> included,
  is logged and gives \<open>False\<close>.
\<close>

definition send :: "notifier \<Rightarrow> real \<Rightarrow> http_result \<Rightarrow> event \<Rightarrow> bool \<times> notifier \<times> request list" where
  "send n now http e =
     (let key = notify_key e in
      if (case last_notify n key of None \<Rightarrow> False | Some t \<Rightarrow> now - t < rate_limit n)
      then (False, n, [])
      else
        let n' = n\<lparr>last_notify := (last_notify n)(key \<mapsto> now)\<rparr>;
            title = str ''[watchd] '' @ event_type e
        in case encode_utf8 (body e) of
             None \<Rightarrow> (False, n', [])
           | Some d \<Rightarrow>
               let req = \<lparr>req_url = topic_url n, req_data = d, req_title = title,
                          req_priority = priority_map (priority e),
                          req_tags = join (str '','') (tags e)\<rparr>
               in (case http of
                     Response st \<Rightarrow> (st = 200, n', [req])
                   | HttpException \<Rightarrow> (False, n', [req])))"


section \<open>PatternDetector\<close>

text \<open>
  A compiled regular expression: its source text (\<open>pattern.pattern\<close>) and what
  \<open>pattern.search\<close> answers on a line. The regular-expression engine is Python's, so the
  detector is modelled for any list of such patterns.
\<close>

record regex =
  pattern :: pystr
  search :: "pystr \<Rightarrow> bool"

record detector =
  patterns :: "regex list"
  lines :: "pystr list"
  partial :: pystr
  seen :: "nat set"

definition PatternDetector :: "regex list \<Rightarrow> detector" where
  "PatternDetector ps = \<lparr>patterns = ps, lines = [], partial = [], seen = {}\<rparr>"

definition match_event :: "regex \<Rightarrow> pystr \<Rightarrow> pystr \<Rightarrow> event" where
  "match_event p ctx cmd =
     \<lparr>event_type = str ''pattern_match'', message = str ''Matched: '' @ pattern p,
      priority = str ''high'', tags = [str ''warning''], econtext = ctx, command = cmd\<rparr>"

text \<open>
  The \<open>for pattern in self.patterns\<close> loop for the line at index \<open>idx\<close> of \<open>ls\<close>:
  the set of reported indices afterwards and the events appended.
\<close>

fun scan :: "regex list \<Rightarrow> pystr \<Rightarrow> nat \<Rightarrow> pystr list \<Rightarrow> pystr \<Rightarrow> nat set \<Rightarrow> nat set \<times> event list" where
  "scan [] line idx ls cmd sn = (sn, [])"
| "scan (p # ps) line idx ls cmd sn =
     (if search p line \<and> idx \<notin> sn then
        let sn' = insert idx sn;
            ctx_start = nat (max 0 (int idx - 2));
            ctx = join [NL] (slice ls ctx_start (idx + 1));
            (sn'', evs) = scan ps line idx ls cmd sn'
        in (sn'', match_event p ctx cmd # evs)
      else scan ps line idx ls cmd sn)"

text \<open>
  One round of the \<open>while\<close> loop once \<open>line\<close> has been split off the partial buffer:
  append it, scan the patterns, truncate the history.
\<close>

definition complete_line :: "detector \<Rightarrow> pystr \<Rightarrow> pystr \<Rightarrow> detector \<times> event list" where
  "complete_line d line cmd =
     (let ls = lines d @ [line];
          idx = length ls - 1;
          (sn, evs) = scan (patterns d) line idx ls cmd (seen d);
          ls' = (if length ls > 500 then last_n 250 ls else ls)
      in (d\<lparr>lines := ls', seen := sn\<rparr>, evs))"

text \<open>\<open>self.partial.split('\n', 1)\<close> when the buffer holds a newline.\<close>

definition split_line :: "pystr \<Rightarrow> pystr \<times> pystr" where
  "split_line s = (takeWhile (\<lambda>c. c \<noteq> NL) s, tl (dropWhile (\<lambda>c. c \<noteq> NL) s))"

lemma split_line_shorter: "NL \<in> set s \<Longrightarrow> length (snd (split_line s)) < length s"
proof -
  assume "NL \<in> set s"
  then have "dropWhile (\<lambda>c. c \<noteq> NL) s \<noteq> []"
    by simp
  then have "length (tl (dropWhile (\<lambda>c. c \<noteq> NL) s)) < length (dropWhile (\<lambda>c. c \<noteq> NL) s)"
    by (cases "dropWhile (\<lambda>c. c \<noteq> NL) s") simp_all
  also have "\<dots> \<le> length s"
    by (rule length_dropWhile_le)
  finally show ?thesis
    by (simp add: split_line_def)
qed

lemma partial_complete_line: "partial (fst (complete_line d line cmd)) = partial d"
  by (simp add: complete_line_def Let_def split: prod.splits)

text \<open>The \<open>while '\n' in self.partial\<close> loop of \<open>feed\<close>.\<close>

function feed_loop :: "detector \<Rightarrow> pystr \<Rightarrow> detector \<times> event list" where
  "feed_loop d cmd =
     (if NL \<in> set (partial d) then
        (case complete_line (d\<lparr>partial := snd (split_line (partial d))\<rparr>)
                (fst (split_line (partial d))) cmd of
           (d', evs) \<Rightarrow> (case feed_loop d' cmd of (d'', evs') \<Rightarrow> (d'', evs @ evs')))
      else (d, []))"
  by pat_completeness auto

termination
proof (relation "measure (\<lambda>(d, cmd). length (partial d))")
  show "wf (measure (\<lambda>(d, cmd). length (partial d)))"
    by simp
next
  fix d :: detector and cmd :: pystr and d' :: detector and evs :: "event list"
  assume nl: "NL \<in> set (partial d)"
    and x: "(d', evs) = complete_line (d\<lparr>partial := snd (split_line (partial d))\<rparr>)
                   (fst (split_line (partial d))) cmd"
  have "partial d' = partial (fst (complete_line (d\<lparr>partial := snd (split_line (partial d))\<rparr>)
                   (fst (split_line (partial d))) cmd))"
    by (simp add: x [symmetric])
  then have "partial d' = snd (split_line (partial d))"
    by (simp add: partial_complete_line)
  with nl show "((d', cmd), (d, cmd)) \<in> measure (\<lambda>(d, cmd). length (partial d))"
    by (simp add: split_line_shorter)
qed

definition feed :: "detector \<Rightarrow> pystr \<Rightarrow> pystr \<Rightarrow> detector \<times> event list" where
  "feed d data cmd = feed_loop (d\<lparr>partial := partial d @ data\<rparr>) cmd"

text \<open>Successive \<open>feed\<close> calls, the events of all of them in order.\<close>

fun feeds :: "detector \<Rightarrow> pystr list \<Rightarrow> pystr \<Rightarrow> detector \<times> event list" where
  "feeds d [] cmd = (d, [])"
| "feeds d (c # cs) cmd =
     (case feed d c cmd of (d', evs) \<Rightarrow>
        (case feeds d' cs cmd of (d'', evs') \<Rightarrow> (d'', evs @ evs')))"


text \<open>
  The default patterns are \<open>\bWORD\b\<close> compiled with \<open>re.IGNORECASE\<close>. What Python's
  engine answers for such a pattern is written out for ASCII text: an occurrence of the
  word, letters compared without case, with no word character (letter, digit,
  underscore) directly before or after it.
\<close>

definition is_word :: "nat \<Rightarrow> bool" where
  "is_word c = ((48 \<le> c \<and> c \<le> 57) \<or> (65 \<le> c \<and> c \<le> 90) \<or> c = 95 \<or> (97 \<le> c \<and> c \<le> 122))"

definition lower :: "nat \<Rightarrow> nat" where
  "lower c = (if 65 \<le> c \<and> c \<le> 90 then c + 32 else c)"

definition word_at :: "pystr \<Rightarrow> pystr \<Rightarrow> bool" where
  "word_at w s =
     (length w \<le> length s \<and> map lower (take (length w) s) = w \<and>
      (case drop (length w) s of [] \<Rightarrow> True | c # _ \<Rightarrow> \<not> is_word c))"

fun search_from :: "pystr \<Rightarrow> bool \<Rightarrow> pystr \<Rightarrow> bool" where
  "search_from w prev [] = False"
| "search_from w prev (c # cs) =
     ((\<not> prev \<and> word_at w (c # cs)) \<or> search_from w (is_word c) cs)"

definition word_pattern :: "string \<Rightarrow> regex" where
  "word_pattern w =
     \<lparr>pattern = [92, 98] @ str w @ [92, 98], search = search_from (str w) False\<rparr>"

definition DEFAULT_PATTERNS :: "regex list" where
  "DEFAULT_PATTERNS = map word_pattern
     [''error'', ''failed'', ''failure'', ''traceback'', ''panic'', ''fatal'',
      ''exception'', ''segmentation fault'', ''killed'', ''oom'']"


section \<open>Session\<close>

text \<open>
  What the session takes from Python's standard library and this development does not
  compute: \<open>bytes.decode('utf-8')\<close> (\<open>None\<close> is UnicodeDecodeError),
  \<open>bytes.decode('utf-8', errors='replace')\<close> and \<open>json.loads\<close> (\<open>None\<close> is
  JSONDecodeError). A JSON object is given by the items of the resulting dictionary, so its
  keys are distinct.
\<close>

datatype json = JNull | JBool bool | JInt int | JFloat real | JStr pystr
  | JArr "json list" | JObj "(pystr \<times> json) list"

record pylib =
  decode_strict :: "bytes \<Rightarrow> pystr option"
  decode_replace :: "bytes \<Rightarrow> pystr"
  json_loads :: "pystr \<Rightarrow> json option"

text \<open>\<open>s.strip()\<close>: the characters for which \<open>str.isspace\<close> holds are removed at both ends.\<close>

definition is_space :: "nat \<Rightarrow> bool" where
  "is_space c =
     ((9 \<le> c \<and> c \<le> 13) \<or> (28 \<le> c \<and> c \<le> 32) \<or> c = 0x85 \<or> c = 0xA0 \<or> c = 0x1680 \<or>
      (0x2000 \<le> c \<and> c \<le> 0x200A) \<or> c = 0x2028 \<or> c = 0x2029 \<or> c = 0x202F \<or>
      c = 0x205F \<or> c = 0x3000)"

definition strip :: "pystr \<Rightarrow> pystr" where
  "strip s = rev (dropWhile is_space (rev (dropWhile is_space s)))"

text \<open>
  The wait-status macros behind \<open>os.WIFEXITED\<close>, \<open>os.WEXITSTATUS\<close>, \<open>os.WIFSIGNALED\<close> and
  \<open>os.WTERMSIG\<close>, as the C library of Linux defines them: the low seven bits hold the
  terminating signal (0 for a normal exit, \<open>0x7f\<close> for a stopped child), bits 8 to 15
  the exit status.
\<close>

definition WTERMSIG :: "int \<Rightarrow> int" where
  "WTERMSIG status = status mod 128"

definition WIFEXITED :: "int \<Rightarrow> bool" where
  "WIFEXITED status = (WTERMSIG status = 0)"

definition WEXITSTATUS :: "int \<Rightarrow> int" where
  "WEXITSTATUS status = (status div 256) mod 256"

definition WIFSIGNALED :: "int \<Rightarrow> bool" where
  "WIFSIGNALED status = (1 \<le> WTERMSIG status \<and> WTERMSIG status \<le> 126)"

text \<open>
  What a session does to the outside, in order: a frame \<open>{'type': t, 'data': d}\<close> handed
  to \<open>client.sendall\<close>, an event handed to \<open>notifier.send\<close>, bytes handed to \<open>os.write\<close>
  on the PTY master, the window-size ioctl, and the two closes. The \<open>data\<close> of a frame
  is a text or \<open>json.dumps(asdict(event))\<close>.
\<close>

datatype payload = Text pystr | EventJson event

datatype action =
    ClientSend pystr payload
  | NotifierSend event
  | PtyWrite bytes
  | SetWinsize nat nat
  | CloseMaster
  | CloseClient

record session =
  command_str :: pystr
  inactivity_timeout :: "int option"
  detector :: detector
  master_fd :: int
  running :: bool
  trace :: "action list"

text \<open>\<open>Session.__init__\<close> followed by the parent's side of \<open>start\<close>, where \<open>pty.fork\<close> gave \<open>fd\<close>.\<close>

definition Session :: "pystr list \<Rightarrow> int option \<Rightarrow> int \<Rightarrow> session" where
  "Session cmd timeout fd =
     \<lparr>command_str = join (str '' '') cmd, inactivity_timeout = timeout,
      detector = PatternDetector DEFAULT_PATTERNS, master_fd = fd, running = True,
      trace = []\<rparr>"

text \<open>The exceptions that no handler of \<open>_loop\<close> catches.\<close>

datatype py_exc = UnicodeDecodeError | UnicodeEncodeError | AttributeError | StructError

text \<open>\<open>_send_to_client\<close>; \<open>ok\<close> is false when \<open>sendall\<close> raises OSError.\<close>

definition send_to_client :: "session \<Rightarrow> pystr \<Rightarrow> payload \<Rightarrow> bool \<Rightarrow> session" where
  "send_to_client s msg_type d ok =
     (let s' = s\<lparr>trace := trace s @ [ClientSend msg_type d]\<rparr>
      in if ok then s' else s'\<lparr>running := False\<rparr>)"

text \<open>\<open>_finish\<close>; an OSError of either close is swallowed.\<close>

definition finish :: "session \<Rightarrow> session" where
  "finish s = s\<lparr>running := False, trace := trace s @ [CloseMaster, CloseClient]\<rparr>"

definition exit_code :: "int \<Rightarrow> int" where
  "exit_code status =
     (if WIFEXITED status then WEXITSTATUS status
      else if WIFSIGNALED status then 128 + WTERMSIG status
      else 1)"

definition exit_event :: "session \<Rightarrow> int \<Rightarrow> event" where
  "exit_event s code =
     \<lparr>event_type = str ''exit_code'', message = str ''Exited with code '' @ str_int code,
      priority = str ''high'', tags = [str ''x''], econtext = [], command = command_str s\<rparr>"

text \<open>\<open>_handle_exit\<close>; \<open>ok\<close> says whether sending the \<open>exit\<close> frame succeeds.\<close>

definition handle_exit :: "session \<Rightarrow> int \<Rightarrow> bool \<Rightarrow> session" where
  "handle_exit s status ok =
     (let code = exit_code status;
          s1 = (if code \<noteq> 0 then s\<lparr>trace := trace s @ [NotifierSend (exit_event s code)]\<rparr>
                else s);
          s2 = send_to_client s1 (str ''exit'') (Text (str_int code)) ok
      in finish s2)"

text \<open>
  \<open>struct.pack\<close> with format \<open>H\<close>: an integer (or a Boolean, which is one in Python)
  from 0 to 65535; anything else is a struct.error.
\<close>

fun pack_H :: "json \<Rightarrow> nat option" where
  "pack_H (JInt i) = (if 0 \<le> i \<and> i \<le> 65535 then Some (nat i) else None)"
| "pack_H (JBool b) = Some (if b then 1 else 0)"
| "pack_H _ = None"

text \<open>\<open>_resize\<close>; an OSError of the ioctl is swallowed, a struct.error is not.\<close>

definition resize :: "session \<Rightarrow> json \<Rightarrow> json \<Rightarrow> py_exc + session" where
  "resize s rows cols =
     (if master_fd s \<noteq> 0 then
        (case pack_H rows of
           None \<Rightarrow> Inl StructError
         | Some r \<Rightarrow>
             (case pack_H cols of
                None \<Rightarrow> Inl StructError
              | Some c \<Rightarrow> Inr (s\<lparr>trace := trace s @ [SetWinsize r c]\<rparr>)))
      else Inr s)"

text \<open>\<open>d.get(k, default)\<close> on the items of a dictionary.\<close>

definition dict_get :: "(pystr \<times> json) list \<Rightarrow> pystr \<Rightarrow> json \<Rightarrow> json" where
  "dict_get kvs k dflt = (case map_of kvs k of None \<Rightarrow> dflt | Some v \<Rightarrow> v)"

text \<open>
  What the environment answers during one round of the \<open>while\<close> loop: the result of
  \<open>select\<close> (\<open>None\<close> when it raises), the clock at the inactivity test and after a read,
  the reads (\<open>None\<close> is OSError), whether each \<open>sendall\<close> succeeds, and \<open>waitpid\<close>.
  The timeout handed to \<open>select\<close> only decides how long it waits and is not computed.
\<close>

datatype fd = Master | Client

datatype wait_result = StillRunning | Reaped int | ChildProcessError

record iter =
  select_result :: "fd list option"
  time_check :: real
  event_send_ok :: bool
  master_read :: "bytes option"
  time_read :: real
  output_send_ok :: bool
  client_recv :: "bytes option"
  waitpid_result :: wait_result
  exit_send_ok :: bool

record locals =
  last_activity :: real
  inactivity_notified :: bool

datatype flow = Continue | Return | Raise py_exc

definition inactivity_event :: "session \<Rightarrow> int \<Rightarrow> event" where
  "inactivity_event s t =
     \<lparr>event_type = str ''inactivity'',
      message = str ''No output for '' @ str_int t @ str ''s'',
      priority = str ''default'', tags = [str ''hourglass_done''], econtext = [],
      command = command_str s\<rparr>"

definition check_inactivity :: "session \<Rightarrow> locals \<Rightarrow> iter \<Rightarrow> session \<times> locals" where
  "check_inactivity s loc it =
     (case inactivity_timeout s of
        None \<Rightarrow> (s, loc)
      | Some t \<Rightarrow>
          if t \<noteq> 0 \<and> \<not> inactivity_notified loc \<and> time_check it - last_activity loc > real_of_int t
          then
            let ev = inactivity_event s t;
                s1 = s\<lparr>trace := trace s @ [NotifierSend ev]\<rparr>;
                s2 = send_to_client s1 (str ''event'') (EventJson ev) (event_send_ok it)
            in (s2, loc\<lparr>inactivity_notified := True\<rparr>)
          else (s, loc))"

text \<open>The branch \<open>fd == self.master_fd\<close>.\<close>

definition on_master :: "pylib \<Rightarrow> session \<Rightarrow> locals \<Rightarrow> iter \<Rightarrow> flow \<times> session \<times> locals" where
  "on_master lib s loc it =
     (let data = (case master_read it of None \<Rightarrow> [] | Some d \<Rightarrow> d) in
      if data = [] then (Return, finish s, loc)
      else
        let loc' = loc\<lparr>last_activity := time_read it, inactivity_notified := False\<rparr>;
            text = decode_replace lib data;
            s1 = send_to_client s (str ''output'') (Text text) (output_send_ok it);
            (d', evs) = feed (detector s1) text (command_str s1)
        in (Continue, s1\<lparr>detector := d', trace := trace s1 @ map NotifierSend evs\<rparr>, loc'))"

definition pty_write :: "session \<Rightarrow> bytes \<Rightarrow> session" where
  "pty_write s b = s\<lparr>trace := trace s @ [PtyWrite b]\<rparr>"

text \<open>
  The \<open>try\<close> block that looks for a control message in a non-empty chunk. A
  JSONDecodeError or a KeyError falls through to the raw write; an OSError of a write is
  swallowed by the outer handler, with nothing left to do in the branch.
\<close>

definition on_chunk :: "pylib \<Rightarrow> session \<Rightarrow> bytes \<Rightarrow> flow \<times> session" where
  "on_chunk lib s data =
     (case decode_strict lib data of
        None \<Rightarrow> (Raise UnicodeDecodeError, s)
      | Some text \<Rightarrow>
          (case json_loads lib (strip text) of
             None \<Rightarrow> (Continue, pty_write s data)
           | Some (JObj kvs) \<Rightarrow>
               if map_of kvs (str ''type'') = Some (JStr (str ''resize'')) then
                 (case resize s (dict_get kvs (str ''rows'') (JInt 24))
                         (dict_get kvs (str ''cols'') (JInt 80)) of
                    Inl e \<Rightarrow> (Raise e, s)
                  | Inr s' \<Rightarrow> (Continue, s'))
               else if map_of kvs (str ''type'') = Some (JStr (str ''input'')) then
                 (case map_of kvs (str ''data'') of
                    None \<Rightarrow> (Continue, pty_write s data)
                  | Some (JStr t) \<Rightarrow>
                      (case encode_utf8 t of
                         None \<Rightarrow> (Raise UnicodeEncodeError, s)
                       | Some b \<Rightarrow> (Continue, pty_write s b))
                  | Some _ \<Rightarrow> (Raise AttributeError, s))
               else (Continue, pty_write s data)
           | Some _ \<Rightarrow> (Raise AttributeError, s)))"

text \<open>The branch \<open>fd == self.client\<close>.\<close>

definition on_client :: "pylib \<Rightarrow> session \<Rightarrow> iter \<Rightarrow> flow \<times> session" where
  "on_client lib s it =
     (case client_recv it of
        None \<Rightarrow> (Continue, s)
      | Some data \<Rightarrow>
          if data \<noteq> [] then on_chunk lib s data
          else (Continue, s\<lparr>running := False\<rparr>))"

text \<open>\<open>for fd in readable\<close>.\<close>

fun for_readable :: "pylib \<Rightarrow> session \<Rightarrow> locals \<Rightarrow> iter \<Rightarrow> fd list \<Rightarrow> flow \<times> session \<times> locals" where
  "for_readable lib s loc it [] = (Continue, s, loc)"
| "for_readable lib s loc it (Master # fds) =
     (case on_master lib s loc it of
        (Continue, s', loc') \<Rightarrow> for_readable lib s' loc' it fds
      | r \<Rightarrow> r)"
| "for_readable lib s loc it (Client # fds) =
     (case on_client lib s it of
        (Continue, s') \<Rightarrow> for_readable lib s' loc it fds
      | (f, s') \<Rightarrow> (f, s', loc))"

text \<open>The child-status check that ends a round.\<close>

definition check_child :: "session \<Rightarrow> locals \<Rightarrow> iter \<Rightarrow> flow \<times> session \<times> locals" where
  "check_child s loc it =
     (case waitpid_result it of
        StillRunning \<Rightarrow> (Continue, s, loc)
      | Reaped status \<Rightarrow> (Return, handle_exit s status (exit_send_ok it), loc)
      | ChildProcessError \<Rightarrow> (Return, finish s, loc))"

text \<open>One round of \<open>while self.running\<close>; a failing \<open>select\<close> leaves the loop by \<open>break\<close>.\<close>

definition iteration :: "pylib \<Rightarrow> session \<Rightarrow> locals \<Rightarrow> iter \<Rightarrow> flow \<times> session \<times> locals" where
  "iteration lib s loc it =
     (case select_result it of
        None \<Rightarrow> (Return, s, loc)
      | Some readable \<Rightarrow>
          (case check_inactivity s loc it of
             (s1, loc1) \<Rightarrow>
               (case for_readable lib s1 loc1 it readable of
                  (Continue, s2, loc2) \<Rightarrow> check_child s2 loc2 it
                | r \<Rightarrow> r)))"

text \<open>
  \<open>_loop\<close> on the rounds the environment provides. \<open>Returned\<close>: the method returned;
  \<open>Raised e\<close>: it was left by the exception \<open>e\<close>; \<open>Waiting\<close>: the session is still
  running when the given rounds are used up.
\<close>

datatype outcome = Returned | Raised py_exc | Waiting

fun loop :: "pylib \<Rightarrow> session \<Rightarrow> locals \<Rightarrow> iter list \<Rightarrow> outcome \<times> session" where
  "loop lib s loc [] = (if running s then Waiting else Returned, s)"
| "loop lib s loc (it # its) =
     (if \<not> running s then (Returned, s)
      else
        (case iteration lib s loc it of
           (Continue, s', loc') \<Rightarrow> loop lib s' loc' its
         | (Return, s', loc') \<Rightarrow> (Returned, s')
         | (Raise e, s', loc') \<Rightarrow> (Raised e, s')))"

text \<open>\<open>_loop\<close> entered at time \<open>t0\<close>.\<close>

definition run :: "pylib \<Rightarrow> session \<Rightarrow> real \<Rightarrow> iter list \<Rightarrow> outcome \<times> session" where
  "run lib s t0 its = loop lib s \<lparr>last_activity = t0, inactivity_notified = False\<rparr> its"

declare feed_loop.simps [simp del]


section \<open>Properties of the detector\<close>

lemma scan_seen: "idx \<in> sn \<Longrightarrow> scan ps line idx ls cmd sn = (sn, [])"
  by (induction ps) auto

lemma slice_nth: "b \<le> length xs \<Longrightarrow> slice xs a b = map ((!) xs) [a ..< b]"
  unfolding slice_def
  by (auto intro!: nth_equalityI)

lemma ctx_start_eq: "nat (max 0 (int idx - 2)) = idx - 2"
  by simp

lemma scan_find:
  "scan ps line idx ls cmd sn =
     (case find (\<lambda>p. search p line) ps of
        None \<Rightarrow> (sn, [])
      | Some p \<Rightarrow>
          if idx \<in> sn then (sn, [])
          else (insert idx sn, [match_event p (join [NL] (slice ls (idx - 2) (idx + 1))) cmd]))"
proof (induction ps)
  case Nil
  show ?case by simp
next
  case (Cons p ps)
  show ?case
  proof (cases "search p line \<and> idx \<notin> sn")
    case True
    then show ?thesis
      by (simp add: scan_seen ctx_start_eq del: max.absorb1 max.absorb2 max.absorb3 max.absorb4)
  next
    case False
    then show ?thesis
      using Cons.IH by (auto simp: scan_seen)
  qed
qed

lemma complete_line_partial:
  "complete_line (d\<lparr>partial := p\<rparr>) line cmd =
     (fst (complete_line d line cmd)\<lparr>partial := p\<rparr>, snd (complete_line d line cmd))"
  by (simp add: complete_line_def Let_def split: prod.splits)

lemma split_line_append:
  "NL \<in> set x \<Longrightarrow> split_line (x @ y) = (fst (split_line x), snd (split_line x) @ y)"
  by (induction x) (auto simp: split_line_def)

lemma feed_loop_append:
  "feed_loop (d\<lparr>partial := x @ y\<rparr>) cmd =
     (case feed_loop (d\<lparr>partial := x\<rparr>) cmd of
        (d', evs) \<Rightarrow>
          (case feed_loop (d'\<lparr>partial := partial d' @ y\<rparr>) cmd of
             (d'', evs') \<Rightarrow> (d'', evs @ evs')))"
proof (induction "length x" arbitrary: x d rule: less_induct)
  case less
  show ?case
  proof (cases "NL \<in> set x")
    case False
    then show ?thesis
      by (simp add: feed_loop.simps [of "d\<lparr>partial := x\<rparr>"])
  next
    case True
    let ?r = "snd (split_line x)"
    let ?l = "fst (split_line x)"
    obtain d1 evs1 where c: "complete_line d ?l cmd = (d1, evs1)"
      by (cases "complete_line d ?l cmd")
    have sh: "length ?r < length x"
      using True by (rule split_line_shorter)
    have A: "feed_loop (d\<lparr>partial := x\<rparr>) cmd =
        (case feed_loop (d1\<lparr>partial := ?r\<rparr>) cmd of (d'', evs') \<Rightarrow> (d'', evs1 @ evs'))"
      using True c by (simp add: feed_loop.simps [of "d\<lparr>partial := x\<rparr>"] complete_line_partial)
    have B: "feed_loop (d\<lparr>partial := x @ y\<rparr>) cmd =
        (case feed_loop (d1\<lparr>partial := ?r @ y\<rparr>) cmd of (d'', evs') \<Rightarrow> (d'', evs1 @ evs'))"
      using True c
      by (simp add: feed_loop.simps [of "d\<lparr>partial := x @ y\<rparr>"] complete_line_partial
          split_line_append)
    show ?thesis
      unfolding A B less.hyps [OF sh, of d1]
      by (simp split: prod.splits)
  qed
qed


lemma feed_append:
  "feed d (a @ b) cmd =
     (case feed d a cmd of
        (d', evs) \<Rightarrow> (case feed d' b cmd of (d'', evs') \<Rightarrow> (d'', evs @ evs')))"
  using feed_loop_append [where d = d and x = "partial d @ a" and y = b and cmd = cmd]
  by (simp add: feed_def)

lemma feed_loop_no_newline: "NL \<notin> set (partial (fst (feed_loop d cmd)))"
proof (induction d cmd rule: feed_loop.induct)
  case (1 d cmd)
  show ?case
  proof (cases "NL \<in> set (partial d)")
    case False
    then show ?thesis
      by (simp add: feed_loop.simps [of d])
  next
    case True
    obtain d' evs where c: "complete_line (d\<lparr>partial := snd (split_line (partial d))\<rparr>)
        (fst (split_line (partial d))) cmd = (d', evs)"
      by (cases "complete_line (d\<lparr>partial := snd (split_line (partial d))\<rparr>)
        (fst (split_line (partial d))) cmd")
    from "1.IH" [OF True c [symmetric]] True c show ?thesis
      by (auto simp add: feed_loop.simps [of d] split: prod.splits)
  qed
qed

lemma feed_empty: "NL \<notin> set (partial d) \<Longrightarrow> feed d [] cmd = (d, [])"
  by (simp add: feed_def feed_loop.simps [of d])

lemma feeds_concat:
  "NL \<notin> set (partial d) \<Longrightarrow> feeds d cs cmd = feed d (concat cs) cmd"
proof (induction cs arbitrary: d)
  case Nil
  then show ?case by (simp add: feed_empty)
next
  case (Cons c cs)
  obtain d' evs where f: "feed d c cmd = (d', evs)"
    by (cases "feed d c cmd")
  have "NL \<notin> set (partial d')"
    using feed_loop_no_newline [of "d\<lparr>partial := partial d @ c\<rparr>" cmd] f
    by (simp add: feed_def)
  from Cons.IH [OF this] f show ?case
    by (simp add: feed_append)
qed

lemma complete_line_events:
  "snd (complete_line d line cmd) =
     (case find (\<lambda>p. search p line) (patterns d) of
        None \<Rightarrow> []
      | Some p \<Rightarrow>
          if length (lines d) \<in> seen d then []
          else [match_event p
                 (join [NL] (map ((!) (lines d @ [line])) [length (lines d) - 2 ..< Suc (length (lines d))]))
                 cmd])"
  by (simp add: complete_line_def scan_find slice_nth Let_def split: option.splits)

text \<open>
  C7. Feeding a string to a new detector one character at a time, by successive \<open>feed\<close>
  calls, gives the same events in the same order (event type, message, context,
  priority, tags and command of each) as feeding the whole string in one call, and
  leaves the detector in the same state.
\<close>

theorem feed_bytewise:
  "feeds (PatternDetector ps) (map (\<lambda>c. [c]) s) cmd = feed (PatternDetector ps) s cmd"
proof -
  have "concat (map (\<lambda>c. [c]) s) = s"
    by (induction s) simp_all
  moreover have "NL \<notin> set (partial (PatternDetector ps))"
    by (simp add: PatternDetector_def)
  ultimately show ?thesis
    by (simp add: feeds_concat)
qed

text \<open>
  C8. A completed line gives at most one \<open>pattern_match\<close> event, however many patterns
  match it, and the context of that event is the lines \<open>max(0, idx-2) .. idx\<close> of the
  history joined by newlines, where \<open>idx\<close> is the index of the completed line.
\<close>

theorem one_event_per_line:
  "length (snd (complete_line d line cmd)) \<le> 1 \<and>
   (\<forall>e \<in> set (snd (complete_line d line cmd)).
      event_type e = str ''pattern_match'' \<and>
      econtext e =
        join [NL] (map ((!) (lines d @ [line]))
                     [length (lines d) - 2 ..< Suc (length (lines d))]))"
  by (simp add: complete_line_events match_event_def split: option.splits)

definition example_detector :: detector where
  "example_detector =
     (PatternDetector DEFAULT_PATTERNS)\<lparr>lines := [str ''make all'', str ''cc main.c'']\<rparr>"

theorem one_event_per_line_witness:
  "length (filter (\<lambda>p. search p (str ''fatal error: x'')) DEFAULT_PATTERNS) = 2 \<and>
   length (snd (complete_line example_detector (str ''fatal error: x'') (str ''make''))) = 1 \<and>
   econtext (hd (snd (complete_line example_detector (str ''fatal error: x'') (str ''make'')))) =
     str ''make all\<newline>cc main.c\<newline>fatal error: x''"
proof -
  let ?evs = "snd (complete_line example_detector (str ''fatal error: x'') (str ''make''))"
  have two: "length (filter (\<lambda>p. search p (str ''fatal error: x'')) DEFAULT_PATTERNS) = 2"
    by code_simp
  have one: "length ?evs = 1"
    by code_simp
  then have "hd ?evs \<in> set ?evs"
    by (cases ?evs) simp_all
  with one_event_per_line [of example_detector "str ''fatal error: x''" "str ''make''"]
  have "econtext (hd ?evs) =
      join [NL] (map ((!) (lines example_detector @ [str ''fatal error: x'']))
                   [length (lines example_detector) - 2 ..< Suc (length (lines example_detector))])"
    by blast
  also have "\<dots> = str ''make all\<newline>cc main.c\<newline>fatal error: x''"
    by code_simp
  finally show ?thesis
    using two one by simp
qed

end
